theory Spec2Isabelle
  imports Main
begin

section \<open>The path resolver script \<open>ros2_get_filepath_from_package.py\<close>\<close>

text \<open>
  The script is one function, \<open>main(args)\<close>, called with \<open>sys.argv\<close>. It reads
  \<open>args[1]\<close>, asks \<open>os.path.isfile\<close> about it, and prints either \<open>args[1]\<close> itself
  or what \<open>get_share_file_path_from_package(package_name=args[1], file_name=args[2])\<close>
  returns, both times with \<open>end=""\<close>.

  The embedding makes explicit everything the Python does besides computing values:
  \<^item> a raised exception is the \<open>Inl\<close> side of a sum, a normal return the \<open>Inr\<close> side;
    the subscripts, the lookup and \<open>print\<close> can each raise;
  \<^item> the calls that reach outside the function (the file test, the package lookup and
    the print) are logged, in program order, in the \<open>trace\<close> of a \<open>world\<close> that is
    passed through \<open>main\<close> and returned;
  \<^item> the package lookup belongs to \<open>ros2launch.api\<close>, not to this script, so it is a
    parameter of \<open>main\<close>: every theorem holds for every lookup function.

  A Python \<open>str\<close> is held as the bytes \<open>os.fsencode\<close> gives for it: this is what
  \<open>sys.argv\<close> and the names found on disk were decoded from, a byte that is not valid
  UTF-8 being carried in the \<open>str\<close> as a lone surrogate.
\<close>

subsection \<open>Exceptions\<close>

text \<open>
  \<open>IndexError\<close> is what a list subscript out of range raises, \<open>UnicodeEncodeError\<close>
  what \<open>print\<close> raises when the output stream cannot encode the text. \<open>Foreign x\<close>
  stands for any other exception; the script raises none itself, so such a value can
  only come out of the package lookup. The lookup may also raise the first two on its
  own.
\<close>

datatype 'x py_exception = IndexError | UnicodeEncodeError | Foreign 'x

subsection \<open>The world: filesystem, output stream and effects\<close>

text \<open>
  What a path names once symbolic links are followed (\<open>os.path.isfile\<close> goes through
  \<open>os.stat\<close>, which follows them). A path that names nothing is not in the map.
\<close>

datatype file_kind = Regular | Directory | Other

text \<open>The calls that leave \<open>main\<close>, as they are logged.\<close>

datatype event =
    Isfile string           \<comment> \<open>\<open>os.path.isfile(path)\<close>\<close>
  | Lookup string string    \<comment> \<open>\<open>get_share_file_path_from_package(package_name, file_name)\<close>\<close>
  | Write string            \<comment> \<open>one \<open>print\<close>: the text handed to \<open>sys.stdout\<close>\<close>

text \<open>
  \<open>stdout_accepts\<close> is the encoder of \<open>sys.stdout\<close>: the non-empty strings its
  encoding and error handler turn into bytes without raising. Both are fixed when the
  interpreter starts (locale, \<open>PYTHONIOENCODING\<close>); a \<open>strict\<close> handler refuses what
  the encoding lacks, \<open>surrogateescape\<close> and \<open>backslashreplace\<close> refuse nothing.
\<close>

record world =
  files :: "string \<rightharpoonup> file_kind"
  stdout_accepts :: "string \<Rightarrow> bool"
  trace :: "event list"

text \<open>Readers of a trace: the texts printed, and the lookups entered, oldest first.\<close>

fun writes :: "event list \<Rightarrow> string list" where
  "writes [] = []"
| "writes (Write s # t) = s # writes t"
| "writes (Isfile p # t) = writes t"
| "writes (Lookup p f # t) = writes t"

fun lookups :: "event list \<Rightarrow> (string \<times> string) list" where
  "lookups [] = []"
| "lookups (Lookup p f # t) = (p, f) # lookups t"
| "lookups (Isfile p # t) = lookups t"
| "lookups (Write s # t) = lookups t"

definition stdout :: "world \<Rightarrow> string" where
  "stdout w = concat (writes (trace w))"

subsection \<open>The Python operations the script uses\<close>

text \<open>\<open>args[i]\<close> for a non-negative literal \<open>i\<close>: out of range raises \<open>IndexError\<close>.\<close>

definition subscript :: "'a list \<Rightarrow> nat \<Rightarrow> 'x py_exception + 'a" where
  "subscript xs i = (if i < length xs then Inr (xs ! i) else Inl IndexError)"

text \<open>
  \<open>os.path.isfile(path)\<close>: true exactly for an existing regular file; a missing path, a
  directory and every other kind of entry give false, and nothing is raised.
\<close>

definition os_path_isfile :: "string \<Rightarrow> world \<Rightarrow> bool \<times> world" where
  "os_path_isfile path w =
     (files w path = Some Regular, w\<lparr>trace := trace w @ [Isfile path]\<rparr>)"

text \<open>Whether \<open>sys.stdout.write(s)\<close> goes through: the empty string always does.\<close>

definition encodable :: "world \<Rightarrow> string \<Rightarrow> bool" where
  "encodable w s = (s = [] \<or> stdout_accepts w s)"

text \<open>
  \<open>print(obj, end=ending)\<close> for a string \<open>obj\<close>: the string is written, then
  \<open>ending\<close>. A write the stream cannot encode raises \<open>UnicodeEncodeError\<close> and
  emits nothing of its own; what was written before it stays written.
\<close>

definition py_print :: "string \<Rightarrow> string \<Rightarrow> world \<Rightarrow> ('x py_exception + unit) \<times> world" where
  "py_print obj ending w =
     (if \<not> encodable w obj then (Inl UnicodeEncodeError, w)
      else if \<not> encodable w ending
        then (Inl UnicodeEncodeError, w\<lparr>trace := trace w @ [Write obj]\<rparr>)
      else (Inr (), w\<lparr>trace := trace w @ [Write (obj @ ending)]\<rparr>))"

text \<open>
  Calling the imported lookup: the call is logged when it is entered, whatever it then
  returns or raises.
\<close>

definition call_lookup ::
  "(string \<Rightarrow> string \<Rightarrow> 'x py_exception + string) \<Rightarrow> string \<Rightarrow> string \<Rightarrow> world
     \<Rightarrow> ('x py_exception + string) \<times> world" where
  "call_lookup get_share_file_path_from_package package_name file_name w =
     (get_share_file_path_from_package package_name file_name,
      w\<lparr>trace := trace w @ [Lookup package_name file_name]\<rparr>)"

subsection \<open>\<open>main\<close>\<close>

text \<open>
  Line by line as in the source: \<open>mode\<close> starts as \<open>'single file'\<close>; \<open>args[1]\<close> is
  evaluated and tested; \<open>mode\<close> becomes \<open>'pkg file'\<close> when the test fails; then the
  branch on \<open>mode\<close>. In the second branch the keyword arguments are evaluated left to
  right, \<open>args[1]\<close> then \<open>args[2]\<close>, before the lookup is called. Nothing is caught:
  an exception of a subscript, of the lookup or of \<open>print\<close> ends \<open>main\<close>. Otherwise
  \<open>main\<close> returns \<open>None\<close>, here \<open>()\<close>.
\<close>

definition main ::
  "(string \<Rightarrow> string \<Rightarrow> 'x py_exception + string) \<Rightarrow> string list \<Rightarrow> world
     \<Rightarrow> ('x py_exception + unit) \<times> world" where
  "main get_share_file_path_from_package args w0 =
     (let mode = ''single file'' in
      case subscript args 1 of
        Inl e \<Rightarrow> (Inl e, w0)
      | Inr a1 \<Rightarrow>
          (case os_path_isfile a1 w0 of
             (is_file, w1) \<Rightarrow>
               (let mode = (if \<not> is_file then ''pkg file'' else mode) in
                if mode = ''single file'' then
                  (case subscript args 1 of
                     Inl e \<Rightarrow> (Inl e, w1)
                   | Inr obj \<Rightarrow>
                       (case py_print obj '''' w1 of
                          (Inl e, w2) \<Rightarrow> (Inl e, w2)
                        | (Inr u, w2) \<Rightarrow> (Inr (), w2)))
                else
                  (case subscript args 1 of
                     Inl e \<Rightarrow> (Inl e, w1)
                   | Inr package_name \<Rightarrow>
                       (case subscript args 2 of
                          Inl e \<Rightarrow> (Inl e, w1)
                        | Inr file_name \<Rightarrow>
                            (case call_lookup get_share_file_path_from_package
                                    package_name file_name w1 of
                               (Inl e, w2) \<Rightarrow> (Inl e, w2)
                             | (Inr obj, w2) \<Rightarrow>
                                 (case py_print obj '''' w2 of
                                    (Inl e, w3) \<Rightarrow> (Inl e, w3)
                                  | (Inr u, w3) \<Rightarrow> (Inr (), w3))))))))"

subsection \<open>Comparing argument lists\<close>

text \<open>
  Two argument lists agree at an index when the element is absent from both, or present
  in both and the same string.
\<close>

definition agree_at :: "'a list \<Rightarrow> 'a list \<Rightarrow> nat \<Rightarrow> bool" where
  "agree_at xs ys i =
     (if i < length xs then i < length ys \<and> xs ! i = ys ! i else \<not> i < length ys)"

subsection \<open>Sample inputs\<close>

text \<open>
  An output stream under \<open>PYTHONIOENCODING=ascii\<close>: the \<open>strict\<close> handler, so every
  byte above 127 is refused.
\<close>

definition strict_ascii :: "string \<Rightarrow> bool" where
  "strict_ascii s = list_all (\<lambda>c. (of_char c :: nat) < 128) s"

text \<open>
  A file named \<open>caf\<close>, the Latin-1 byte \<open>0xE9\<close>, \<open>.launch\<close>. The byte is not valid
  UTF-8 in that place, so a strict UTF-8 stream refuses the name as well.
\<close>

definition latin1_name :: string where
  "latin1_name = ''caf'' @ [CHR 0xE9] @ ''.launch''"

definition latin1_file :: string where
  "latin1_file = ''/tmp/'' @ latin1_name"

text \<open>
  A filesystem with two regular files and one directory, and two stand-ins for the
  package index: one that knows one file of one package and raises for everything
  else, one that finds every file name directly under the package's share directory.
\<close>

definition example_files :: "string \<rightharpoonup> file_kind" where
  "example_files =
     [''/tmp/existing_file.txt'' \<mapsto> Regular, latin1_file \<mapsto> Regular, ''/tmp'' \<mapsto> Directory]"

definition example_world :: world where
  "example_world = \<lparr>files = example_files, stdout_accepts = strict_ascii, trace = []\<rparr>"

definition example_lookup :: "string \<Rightarrow> string \<Rightarrow> string py_exception + string" where
  "example_lookup package_name file_name =
     (if package_name = ''my_package'' \<and> file_name = ''robot.launch''
      then Inr ''/opt/ros/ws/share/my_package/launch/robot.launch''
      else Inl (Foreign ''PackageNotFoundError''))"

definition share_lookup :: "string \<Rightarrow> string \<Rightarrow> string py_exception + string" where
  "share_lookup package_name file_name =
     Inr (''/opt/ros/ws/share/'' @ package_name @ ''/'' @ file_name)"

section \<open>Properties\<close>

subsection \<open>How a run can go\<close>

lemma encodable_trace [simp]: "encodable (w\<lparr>trace := t\<rparr>) s = encodable w s"
  by (simp add: encodable_def)

lemma main_no_arg1:
  "length args \<le> 1 \<Longrightarrow> main lookup args w = (Inl IndexError, w)"
  by (simp add: main_def subscript_def)

lemma main_single_file:
  assumes "1 < length args" and "files w (args ! 1) = Some Regular"
  shows "main lookup args w =
           (if encodable w (args ! 1)
            then (Inr (), w\<lparr>trace := trace w @ [Isfile (args ! 1), Write (args ! 1)]\<rparr>)
            else (Inl UnicodeEncodeError, w\<lparr>trace := trace w @ [Isfile (args ! 1)]\<rparr>))"
  using assms
  by (simp add: main_def subscript_def os_path_isfile_def py_print_def encodable_def)

lemma main_pkg_no_arg2:
  assumes "length args = 2" and "files w (args ! 1) \<noteq> Some Regular"
  shows "main lookup args w =
           (Inl IndexError, w\<lparr>trace := trace w @ [Isfile (args ! 1)]\<rparr>)"
  using assms by (simp add: main_def subscript_def os_path_isfile_def)

lemma main_pkg_file:
  assumes "2 < length args" and "files w (args ! 1) \<noteq> Some Regular"
  shows "main lookup args w =
           (case lookup (args ! 1) (args ! 2) of
              Inl e \<Rightarrow>
                (Inl e, w\<lparr>trace := trace w @ [Isfile (args ! 1), Lookup (args ! 1) (args ! 2)]\<rparr>)
            | Inr r \<Rightarrow>
                (if encodable w r
                 then (Inr (), w\<lparr>trace := trace w @
                         [Isfile (args ! 1), Lookup (args ! 1) (args ! 2), Write r]\<rparr>)
                 else (Inl UnicodeEncodeError, w\<lparr>trace := trace w @
                         [Isfile (args ! 1), Lookup (args ! 1) (args ! 2)]\<rparr>)))"
  using assms
  by (simp add: main_def subscript_def os_path_isfile_def py_print_def call_lookup_def
      encodable_def split: sum.split)

lemma writes_append [simp]: "writes (s @ t) = writes s @ writes t"
  by (induction s rule: writes.induct) simp_all

lemma lookups_append [simp]: "lookups (s @ t) = lookups s @ lookups t"
  by (induction s rule: lookups.induct) simp_all

lemma files_main [simp]: "files (snd (main lookup args w)) = files w"
  by (simp add: main_def subscript_def os_path_isfile_def py_print_def call_lookup_def
      split: sum.split)

lemma stdout_accepts_main [simp]:
  "stdout_accepts (snd (main lookup args w)) = stdout_accepts w"
  by (simp add: main_def subscript_def os_path_isfile_def py_print_def call_lookup_def
      split: sum.split)

text \<open>Every run is one of seven: the case rule the later proofs go through.\<close>

lemma main_cases
  [case_names no_arg1 single_file single_file_refused no_arg2 raised found found_refused]:
  obtains
    "length args \<le> 1" and "main lookup args w = (Inl IndexError, w)"
  | "1 < length args" and "files w (args ! 1) = Some Regular" and
    "encodable w (args ! 1)" and
    "main lookup args w =
       (Inr (), w\<lparr>trace := trace w @ [Isfile (args ! 1), Write (args ! 1)]\<rparr>)"
  | "1 < length args" and "files w (args ! 1) = Some Regular" and
    "\<not> encodable w (args ! 1)" and
    "main lookup args w =
       (Inl UnicodeEncodeError, w\<lparr>trace := trace w @ [Isfile (args ! 1)]\<rparr>)"
  | "length args = 2" and "files w (args ! 1) \<noteq> Some Regular" and
    "main lookup args w = (Inl IndexError, w\<lparr>trace := trace w @ [Isfile (args ! 1)]\<rparr>)"
  | e where "2 < length args" and "files w (args ! 1) \<noteq> Some Regular" and
    "lookup (args ! 1) (args ! 2) = Inl e" and
    "main lookup args w =
       (Inl e, w\<lparr>trace := trace w @ [Isfile (args ! 1), Lookup (args ! 1) (args ! 2)]\<rparr>)"
  | r where "2 < length args" and "files w (args ! 1) \<noteq> Some Regular" and
    "lookup (args ! 1) (args ! 2) = Inr r" and "encodable w r" and
    "main lookup args w =
       (Inr (), w\<lparr>trace := trace w @
          [Isfile (args ! 1), Lookup (args ! 1) (args ! 2), Write r]\<rparr>)"
  | r where "2 < length args" and "files w (args ! 1) \<noteq> Some Regular" and
    "lookup (args ! 1) (args ! 2) = Inr r" and "\<not> encodable w r" and
    "main lookup args w =
       (Inl UnicodeEncodeError,
        w\<lparr>trace := trace w @ [Isfile (args ! 1), Lookup (args ! 1) (args ! 2)]\<rparr>)"
proof -
  consider "length args \<le> 1"
    | "1 < length args" "files w (args ! 1) = Some Regular"
    | "length args = 2" "files w (args ! 1) \<noteq> Some Regular"
    | "2 < length args" "files w (args ! 1) \<noteq> Some Regular"
    by linarith
  then show thesis
  proof cases
    case 1
    then show thesis using that(1) main_no_arg1 by blast
  next
    case 2
    show thesis
    proof (cases "encodable w (args ! 1)")
      case True
      with 2 main_single_file [OF 2, of lookup] show thesis using that(2) by simp
    next
      case False
      with 2 main_single_file [OF 2, of lookup] show thesis using that(3) by simp
    qed
  next
    case 3
    then show thesis using that(4) main_pkg_no_arg2 by blast
  next
    case 4
    show thesis
    proof (cases "lookup (args ! 1) (args ! 2)")
      case (Inl e)
      with 4 main_pkg_file [OF 4, of lookup] show thesis using that(5) by simp
    next
      case (Inr r)
      show thesis
      proof (cases "encodable w r")
        case True
        with 4 Inr main_pkg_file [OF 4, of lookup] show thesis using that(6) by simp
      next
        case False
        with 4 Inr main_pkg_file [OF 4, of lookup] show thesis using that(7) by simp
      qed
    qed
  qed
qed

text \<open>The sample stream takes the sample paths and refuses the Latin-1 name.\<close>

lemma example_encodable:
  "encodable example_world ''/tmp/existing_file.txt''"
  "encodable example_world ''/opt/ros/ws/share/my_package/launch/robot.launch''"
  "encodable example_world ''/opt/ros/ws/share/my_package/robot.launch''"
  "\<not> encodable example_world latin1_file"
  "\<not> encodable example_world (''/opt/ros/ws/share/my_package/'' @ latin1_name)"
  by (simp_all add: encodable_def example_world_def strict_ascii_def latin1_file_def
      latin1_name_def)

subsection \<open>Single-file mode\<close>

text \<open>
  C1, as the code has it. Whenever \<open>args[1]\<close> is present and names an existing regular
  file, the run takes the single-file branch. If standard output can encode \<open>args[1]\<close>
  the run returns normally, its only effects are the file test and one print of
  \<open>args[1]\<close>, and standard output grows by exactly the characters of \<open>args[1]\<close>. If
  it cannot, \<open>print\<close> raises \<open>UnicodeEncodeError\<close> after the file test and nothing
  is written.
\<close>

theorem single_file_prints_arg1:
  assumes "1 < length args" and "files w (args ! 1) = Some Regular"
  shows "(encodable w (args ! 1) \<longrightarrow>
            main lookup args w =
              (Inr (), w\<lparr>trace := trace w @ [Isfile (args ! 1), Write (args ! 1)]\<rparr>)
            \<and> stdout (snd (main lookup args w)) = stdout w @ args ! 1)
         \<and> (\<not> encodable w (args ! 1) \<longrightarrow>
              main lookup args w =
                (Inl UnicodeEncodeError, w\<lparr>trace := trace w @ [Isfile (args ! 1)]\<rparr>))"
  using main_single_file [OF assms, of lookup] by (simp add: stdout_def)

theorem single_file_prints_arg1_witness:
  "1 < length [''prog'', ''/tmp/existing_file.txt'']
   \<and> files example_world ([''prog'', ''/tmp/existing_file.txt''] ! 1) = Some Regular
   \<and> encodable example_world ([''prog'', ''/tmp/existing_file.txt''] ! 1)
   \<and> main example_lookup [''prog'', ''/tmp/existing_file.txt''] example_world =
       (Inr (), \<lparr>files = example_files, stdout_accepts = strict_ascii,
                 trace = [Isfile ''/tmp/existing_file.txt'', Write ''/tmp/existing_file.txt'']\<rparr>)
   \<and> stdout (snd (main example_lookup [''prog'', ''/tmp/existing_file.txt''] example_world))
       = ''/tmp/existing_file.txt''"
proof -
  let ?args = "[''prog'', ''/tmp/existing_file.txt'']"
  have h1: "1 < length ?args"
    by simp
  have h2: "files example_world (?args ! 1) = Some Regular"
    by (simp add: example_world_def example_files_def latin1_file_def)
  have h3: "encodable example_world (?args ! 1)"
    using example_encodable(1) by simp
  have "main example_lookup ?args example_world =
          (Inr (), example_world\<lparr>trace := trace example_world @
             [Isfile (?args ! 1), Write (?args ! 1)]\<rparr>)
        \<and> stdout (snd (main example_lookup ?args example_world))
            = stdout example_world @ ?args ! 1"
    using single_file_prints_arg1 [OF h1 h2, of example_lookup] h3 by blast
  then show ?thesis
    using h1 h2 h3 by (simp add: example_world_def stdout_def)
qed

text \<open>
  The claim without the condition on the output stream fails: a regular file whose
  name holds a Latin-1 byte, printed to a strict ASCII stream.
\<close>

theorem single_file_prints_arg1_counterexample:
  "latin1_file = ''/tmp/caf'' @ [CHR 0xE9] @ ''.launch''
   \<and> 1 < length [''prog'', latin1_file]
   \<and> files example_world ([''prog'', latin1_file] ! 1) = Some Regular
   \<and> main example_lookup [''prog'', latin1_file] example_world \<noteq>
       (Inr (), example_world\<lparr>trace := trace example_world @
          [Isfile ([''prog'', latin1_file] ! 1), Write ([''prog'', latin1_file] ! 1)]\<rparr>)
   \<and> fst (main example_lookup [''prog'', latin1_file] example_world) = Inl UnicodeEncodeError
   \<and> stdout (snd (main example_lookup [''prog'', latin1_file] example_world)) = []"
proof -
  let ?args = "[''prog'', latin1_file]"
  have h0: "latin1_file = ''/tmp/caf'' @ [CHR 0xE9] @ ''.launch''"
    by (simp add: latin1_file_def latin1_name_def)
  have h1: "1 < length ?args"
    by simp
  have h2: "files example_world (?args ! 1) = Some Regular"
    by (simp add: example_world_def example_files_def latin1_file_def latin1_name_def)
  have h3: "\<not> encodable example_world (?args ! 1)"
    using example_encodable(4) by simp
  have m: "main example_lookup ?args example_world =
             (Inl UnicodeEncodeError,
              example_world\<lparr>trace := trace example_world @ [Isfile (?args ! 1)]\<rparr>)"
    using main_single_file [OF h1 h2, of example_lookup] h3 by simp
  show ?thesis
    using h0 h1 h2 m by (simp add: stdout_def example_world_def)
qed

subsection \<open>Package mode\<close>

text \<open>
  C2, as the code has it. Whenever \<open>args\<close> has at least three elements and \<open>args[1]\<close>
  is not an existing regular file (it names nothing, a directory, or any other kind of
  entry), the run takes the package branch: the lookup is entered once, with
  \<open>(args[1], args[2])\<close>. A string it returns that standard output can encode is what
  is printed, character for character; for one it cannot encode, \<open>print\<close> raises
  \<open>UnicodeEncodeError\<close> and nothing is written.
\<close>

theorem pkg_file_prints_lookup_result:
  assumes "2 < length args" and "files w (args ! 1) \<noteq> Some Regular"
  shows "lookups (trace (snd (main lookup args w)))
           = lookups (trace w) @ [(args ! 1, args ! 2)]
         \<and> (\<forall>r. lookup (args ! 1) (args ! 2) = Inr r \<and> encodable w r \<longrightarrow>
               main lookup args w =
                 (Inr (), w\<lparr>trace := trace w @
                    [Isfile (args ! 1), Lookup (args ! 1) (args ! 2), Write r]\<rparr>)
               \<and> stdout (snd (main lookup args w)) = stdout w @ r)
         \<and> (\<forall>r. lookup (args ! 1) (args ! 2) = Inr r \<and> \<not> encodable w r \<longrightarrow>
               main lookup args w =
                 (Inl UnicodeEncodeError, w\<lparr>trace := trace w @
                    [Isfile (args ! 1), Lookup (args ! 1) (args ! 2)]\<rparr>))"
  using main_pkg_file [OF assms, of lookup] by (simp add: stdout_def split: sum.split)

theorem pkg_file_prints_lookup_result_witness:
  "2 < length [''prog'', ''/tmp'', ''robot.launch'']
   \<and> files example_world ([''prog'', ''/tmp'', ''robot.launch''] ! 1) = Some Directory
   \<and> main share_lookup [''prog'', ''/tmp'', ''robot.launch''] example_world =
       (Inr (), \<lparr>files = example_files, stdout_accepts = strict_ascii,
                 trace = [Isfile ''/tmp'', Lookup ''/tmp'' ''robot.launch'',
                          Write ''/opt/ros/ws/share//tmp/robot.launch'']\<rparr>)
   \<and> main example_lookup [''prog'', ''my_package'', ''robot.launch''] example_world =
       (Inr (), \<lparr>files = example_files, stdout_accepts = strict_ascii,
                 trace = [Isfile ''my_package'', Lookup ''my_package'' ''robot.launch'',
                          Write ''/opt/ros/ws/share/my_package/launch/robot.launch'']\<rparr>)"
proof -
  let ?dir = "[''prog'', ''/tmp'', ''robot.launch'']"
  let ?pkg = "[''prog'', ''my_package'', ''robot.launch'']"
  have d1: "2 < length ?dir" and p1: "2 < length ?pkg"
    by simp_all
  have d2: "files example_world (?dir ! 1) = Some Directory"
    by (simp add: example_world_def example_files_def)
  then have d3: "files example_world (?dir ! 1) \<noteq> Some Regular"
    by simp
  have p3: "files example_world (?pkg ! 1) \<noteq> Some Regular"
    by (simp add: example_world_def example_files_def latin1_file_def)
  have d4: "share_lookup (?dir ! 1) (?dir ! 2) = Inr ''/opt/ros/ws/share//tmp/robot.launch''
            \<and> encodable example_world ''/opt/ros/ws/share//tmp/robot.launch''"
    by (simp add: share_lookup_def encodable_def example_world_def strict_ascii_def)
  have p4: "example_lookup (?pkg ! 1) (?pkg ! 2)
              = Inr ''/opt/ros/ws/share/my_package/launch/robot.launch''
            \<and> encodable example_world ''/opt/ros/ws/share/my_package/launch/robot.launch''"
    using example_encodable(2) by (simp add: example_lookup_def)
  have d: "main share_lookup ?dir example_world =
             (Inr (), example_world\<lparr>trace := trace example_world @
                [Isfile (?dir ! 1), Lookup (?dir ! 1) (?dir ! 2),
                 Write ''/opt/ros/ws/share//tmp/robot.launch'']\<rparr>)"
    using pkg_file_prints_lookup_result [OF d1 d3, of share_lookup] d4 by blast
  have p: "main example_lookup ?pkg example_world =
             (Inr (), example_world\<lparr>trace := trace example_world @
                [Isfile (?pkg ! 1), Lookup (?pkg ! 1) (?pkg ! 2),
                 Write ''/opt/ros/ws/share/my_package/launch/robot.launch'']\<rparr>)"
    using pkg_file_prints_lookup_result [OF p1 p3, of example_lookup] p4 by blast
  show ?thesis
    using d1 d2 d p by (simp add: example_world_def)
qed

text \<open>
  The claim without the condition on the output stream fails: the lookup finds a file
  whose name holds a Latin-1 byte, and the stream is strict ASCII.
\<close>

theorem pkg_file_prints_lookup_result_counterexample:
  "latin1_name = ''caf'' @ [CHR 0xE9] @ ''.launch''
   \<and> 2 < length [''prog'', ''my_package'', latin1_name]
   \<and> files example_world ([''prog'', ''my_package'', latin1_name] ! 1) = None
   \<and> share_lookup ''my_package'' latin1_name
       = Inr (''/opt/ros/ws/share/my_package/'' @ latin1_name)
   \<and> fst (main share_lookup [''prog'', ''my_package'', latin1_name] example_world)
       = Inl UnicodeEncodeError
   \<and> writes (trace (snd
        (main share_lookup [''prog'', ''my_package'', latin1_name] example_world))) = []"
proof -
  let ?args = "[''prog'', ''my_package'', latin1_name]"
  have h0: "latin1_name = ''caf'' @ [CHR 0xE9] @ ''.launch''"
    by (simp add: latin1_name_def)
  have h1: "2 < length ?args"
    by simp
  have h2: "files example_world (?args ! 1) = None"
    by (simp add: example_world_def example_files_def latin1_file_def)
  then have h3: "files example_world (?args ! 1) \<noteq> Some Regular"
    by simp
  have h4: "share_lookup ''my_package'' latin1_name
              = Inr (''/opt/ros/ws/share/my_package/'' @ latin1_name)"
    by (simp add: share_lookup_def)
  have m: "main share_lookup ?args example_world =
             (Inl UnicodeEncodeError, example_world\<lparr>trace := trace example_world @
                [Isfile (?args ! 1), Lookup (?args ! 1) (?args ! 2)]\<rparr>)"
    using main_pkg_file [OF h1 h3, of share_lookup] h4 example_encodable(5) by simp
  show ?thesis
    using h0 h1 h2 h4 m by (simp add: example_world_def)
qed

subsection \<open>Missing arguments\<close>

text \<open>
  C3. Whenever \<open>args\<close> has exactly two elements and \<open>args[1]\<close> is not an existing
  regular file, the run ends with an \<open>IndexError\<close> and has printed nothing.
\<close>

theorem pkg_file_without_arg2_raises:
  assumes "length args = 2" and "files w (args ! 1) \<noteq> Some Regular"
  shows "fst (main lookup args w) = Inl IndexError
         \<and> writes (trace (snd (main lookup args w))) = writes (trace w)"
  using main_pkg_no_arg2 [OF assms, of lookup] by simp

theorem pkg_file_without_arg2_raises_witness:
  "length [''prog'', ''my_package''] = 2
   \<and> files example_world ([''prog'', ''my_package''] ! 1) = None
   \<and> fst (main example_lookup [''prog'', ''my_package''] example_world) = Inl IndexError
   \<and> writes (trace (snd (main example_lookup [''prog'', ''my_package''] example_world))) = []"
proof -
  let ?args = "[''prog'', ''my_package'']"
  have h1: "length ?args = 2"
    by simp
  have h2: "files example_world (?args ! 1) = None"
    by (simp add: example_world_def example_files_def latin1_file_def)
  then have h3: "files example_world (?args ! 1) \<noteq> Some Regular"
    by simp
  show ?thesis
    using h1 h2 pkg_file_without_arg2_raises [OF h1 h3, of example_lookup]
    by (simp add: example_world_def)
qed

text \<open>
  C4. When \<open>args\<close> holds the program name and nothing else, the run ends with an
  \<open>IndexError\<close> and the world is as it was: no file test, no lookup, no output.
\<close>

theorem program_name_only_raises:
  "main lookup [prog] w = (Inl IndexError, w)"
  by (simp add: main_def subscript_def)

text \<open>
  C10. Whenever package mode is taken and \<open>args[2]\<close> is absent, the whole run is the
  file test followed by the \<open>IndexError\<close>: the trace holds no lookup, so the error
  comes from evaluating \<open>args[2]\<close> and the lookup is never entered. The lookup
  function has no influence on the run.
\<close>

theorem index_error_precedes_lookup:
  assumes "length args = 2" and "files w (args ! 1) \<noteq> Some Regular"
  shows "main lookup args w = (Inl IndexError, w\<lparr>trace := trace w @ [Isfile (args ! 1)]\<rparr>)
         \<and> lookups (trace (snd (main lookup args w))) = lookups (trace w)
         \<and> main lookup args w = main lookup' args w"
  using main_pkg_no_arg2 [OF assms, of lookup] main_pkg_no_arg2 [OF assms, of lookup']
  by simp

theorem index_error_precedes_lookup_witness:
  "length [''prog'', ''/tmp''] = 2
   \<and> files example_world ([''prog'', ''/tmp''] ! 1) = Some Directory
   \<and> main example_lookup [''prog'', ''/tmp''] example_world =
       (Inl IndexError,
        \<lparr>files = example_files, stdout_accepts = strict_ascii, trace = [Isfile ''/tmp'']\<rparr>)
   \<and> lookups (trace (snd (main example_lookup [''prog'', ''/tmp''] example_world))) = []"
proof -
  let ?args = "[''prog'', ''/tmp'']"
  have h1: "length ?args = 2"
    by simp
  have h2: "files example_world (?args ! 1) = Some Directory"
    by (simp add: example_world_def example_files_def)
  then have h3: "files example_world (?args ! 1) \<noteq> Some Regular"
    by simp
  show ?thesis
    using h1 h2 index_error_precedes_lookup [OF h1 h3, of example_lookup]
    by (simp add: example_world_def)
qed

subsection \<open>Failure of the lookup\<close>

text \<open>
  C5, as the code has it. Whenever package mode is taken with \<open>args[1]\<close> and
  \<open>args[2]\<close> present: an exception raised by the lookup is the exception the run ends
  with, the same value; the run fails whenever the lookup fails, and when the lookup
  returns a string it fails exactly if standard output cannot encode that string, with
  \<open>print\<close>'s \<open>UnicodeEncodeError\<close>; the lookup is entered exactly once (no retry);
  and a failed lookup leaves nothing printed (no fallback).
\<close>

theorem lookup_error_propagates:
  assumes "2 < length args" and "files w (args ! 1) \<noteq> Some Regular"
  shows "(\<forall>e. lookup (args ! 1) (args ! 2) = Inl e \<longrightarrow> fst (main lookup args w) = Inl e)
         \<and> isl (fst (main lookup args w))
             = (isl (lookup (args ! 1) (args ! 2))
                \<or> (\<exists>r. lookup (args ! 1) (args ! 2) = Inr r \<and> \<not> encodable w r))
         \<and> (\<forall>r. lookup (args ! 1) (args ! 2) = Inr r \<and> \<not> encodable w r \<longrightarrow>
               fst (main lookup args w) = Inl UnicodeEncodeError)
         \<and> lookups (trace (snd (main lookup args w)))
             = lookups (trace w) @ [(args ! 1, args ! 2)]
         \<and> (isl (lookup (args ! 1) (args ! 2)) \<longrightarrow>
               writes (trace (snd (main lookup args w))) = writes (trace w))"
proof (cases rule: main_cases [of args lookup w])
  case no_arg1
  with assms show ?thesis by simp
next
  case single_file
  with assms show ?thesis by simp
next
  case single_file_refused
  with assms show ?thesis by simp
next
  case no_arg2
  with assms show ?thesis by simp
next
  case (raised e)
  then show ?thesis by simp
next
  case (found r)
  then show ?thesis by simp
next
  case (found_refused r)
  then show ?thesis by simp
qed

theorem lookup_error_propagates_witness:
  "2 < length [''prog'', ''nonexistent_pkg'', ''missing.xml'']
   \<and> files example_world ([''prog'', ''nonexistent_pkg'', ''missing.xml''] ! 1) = None
   \<and> example_lookup ''nonexistent_pkg'' ''missing.xml'' = Inl (Foreign ''PackageNotFoundError'')
   \<and> main example_lookup [''prog'', ''nonexistent_pkg'', ''missing.xml''] example_world =
       (Inl (Foreign ''PackageNotFoundError''),
        \<lparr>files = example_files, stdout_accepts = strict_ascii,
         trace = [Isfile ''nonexistent_pkg'', Lookup ''nonexistent_pkg'' ''missing.xml'']\<rparr>)"
proof -
  let ?args = "[''prog'', ''nonexistent_pkg'', ''missing.xml'']"
  have h1: "2 < length ?args"
    by simp
  have h2: "files example_world (?args ! 1) = None"
    by (simp add: example_world_def example_files_def latin1_file_def)
  then have h3: "files example_world (?args ! 1) \<noteq> Some Regular"
    by simp
  have h4: "example_lookup ''nonexistent_pkg'' ''missing.xml'' = Inl (Foreign ''PackageNotFoundError'')"
    by (simp add: example_lookup_def)
  have fst_eq: "fst (main example_lookup ?args example_world) = Inl (Foreign ''PackageNotFoundError'')"
    using lookup_error_propagates [OF h1 h3, of example_lookup] h4 by simp
  have "trace (snd (main example_lookup ?args example_world))
          = [Isfile ''nonexistent_pkg'', Lookup ''nonexistent_pkg'' ''missing.xml'']"
    using main_pkg_file [OF h1 h3, of example_lookup] h4 by (simp add: example_world_def)
  then have snd_eq: "snd (main example_lookup ?args example_world) =
      \<lparr>files = example_files, stdout_accepts = strict_ascii,
       trace = [Isfile ''nonexistent_pkg'', Lookup ''nonexistent_pkg'' ''missing.xml'']\<rparr>"
    by (simp add: example_world_def)
  show ?thesis
    using h1 h2 h4 fst_eq snd_eq by (simp add: prod_eq_iff)
qed

text \<open>
  The claim's ``fails if and only if the lookup fails'' does not hold: here the lookup
  returns a path and the run fails all the same, in \<open>print\<close>.
\<close>

theorem lookup_error_propagates_counterexample:
  "latin1_name = ''caf'' @ [CHR 0xE9] @ ''.launch''
   \<and> 2 < length [''prog'', ''my_package'', latin1_name]
   \<and> files example_world ([''prog'', ''my_package'', latin1_name] ! 1) = None
   \<and> \<not> isl (share_lookup ([''prog'', ''my_package'', latin1_name] ! 1)
              ([''prog'', ''my_package'', latin1_name] ! 2))
   \<and> isl (fst (main share_lookup [''prog'', ''my_package'', latin1_name] example_world))"
proof -
  let ?args = "[''prog'', ''my_package'', latin1_name]"
  have h0: "latin1_name = ''caf'' @ [CHR 0xE9] @ ''.launch''"
    by (simp add: latin1_name_def)
  have h1: "2 < length ?args"
    by simp
  have h2: "files example_world (?args ! 1) = None"
    by (simp add: example_world_def example_files_def latin1_file_def)
  then have h3: "files example_world (?args ! 1) \<noteq> Some Regular"
    by simp
  have h4: "share_lookup (?args ! 1) (?args ! 2)
              = Inr (''/opt/ros/ws/share/my_package/'' @ latin1_name)"
    by (simp add: share_lookup_def)
  have m: "fst (main share_lookup ?args example_world) = Inl UnicodeEncodeError"
    using main_pkg_file [OF h1 h3, of share_lookup] h4 example_encodable(5) by simp
  show ?thesis
    using h0 h1 h2 h4 m by simp
qed

subsection \<open>What is printed\<close>

text \<open>
  C6. On every run that returns normally, in either mode, one string is printed and it
  is the resolved path itself (\<open>args[1]\<close> in single-file mode, the lookup's value in
  package mode): standard output grows by exactly its characters, and not by the path
  followed by a newline.
\<close>

theorem output_is_exactly_resolved_path:
  assumes "fst (main lookup args w) = Inr ()"
  shows "\<exists>r. (if files w (args ! 1) = Some Regular then r = args ! 1
               else lookup (args ! 1) (args ! 2) = Inr r)
             \<and> writes (trace (snd (main lookup args w))) = writes (trace w) @ [r]
             \<and> stdout (snd (main lookup args w)) = stdout w @ r
             \<and> stdout (snd (main lookup args w)) \<noteq> stdout w @ r @ [CHR 0x0A]"
proof (cases rule: main_cases [of args lookup w])
  case no_arg1
  with assms show ?thesis by simp
next
  case single_file
  then show ?thesis by (simp add: stdout_def)
next
  case single_file_refused
  with assms show ?thesis by simp
next
  case no_arg2
  with assms show ?thesis by simp
next
  case (raised e)
  with assms show ?thesis by simp
next
  case (found r)
  then show ?thesis by (simp add: stdout_def)
next
  case (found_refused r)
  with assms show ?thesis by simp
qed

theorem output_is_exactly_resolved_path_witness:
  "fst (main example_lookup [''prog'', ''/tmp/existing_file.txt''] example_world) = Inr ()
   \<and> stdout (snd (main example_lookup [''prog'', ''/tmp/existing_file.txt''] example_world))
       = ''/tmp/existing_file.txt''
   \<and> fst (main example_lookup [''prog'', ''my_package'', ''robot.launch''] example_world) = Inr ()
   \<and> stdout (snd (main example_lookup [''prog'', ''my_package'', ''robot.launch''] example_world))
       = ''/opt/ros/ws/share/my_package/launch/robot.launch''"
proof -
  let ?one = "[''prog'', ''/tmp/existing_file.txt'']"
  let ?two = "[''prog'', ''my_package'', ''robot.launch'']"
  have f1: "files example_world (?one ! 1) = Some Regular"
    and f2: "files example_world (?two ! 1) \<noteq> Some Regular"
    by (simp_all add: example_world_def example_files_def latin1_file_def)
  have h1: "fst (main example_lookup ?one example_world) = Inr ()"
    using main_single_file [OF _ f1, of example_lookup] example_encodable(1) by simp
  have h2: "fst (main example_lookup ?two example_world) = Inr ()"
    using main_pkg_file [OF _ f2, of example_lookup] example_encodable(2)
    by (simp add: example_lookup_def)
  have s0: "stdout example_world = []"
    by (simp add: stdout_def example_world_def)
  have o1: "stdout (snd (main example_lookup ?one example_world)) = ''/tmp/existing_file.txt''"
    using output_is_exactly_resolved_path [OF h1] f1 s0 by auto
  have o2: "stdout (snd (main example_lookup ?two example_world))
              = ''/opt/ros/ws/share/my_package/launch/robot.launch''"
    using output_is_exactly_resolved_path [OF h2] f2 s0 by (auto simp: example_lookup_def)
  show ?thesis
    using h1 h2 o1 o2 by simp
qed

subsection \<open>Effects of a run\<close>

text \<open>
  C8. On every run that returns normally, the filesystem is what it was, exactly one
  string has been printed, and the complete list of what the run did outside itself is
  the file test of \<open>args[1]\<close>, in package mode the one lookup, and that one print.
\<close>

theorem successful_run_writes_once:
  assumes "fst (main lookup args w) = Inr ()"
  shows "files (snd (main lookup args w)) = files w
         \<and> length (writes (trace (snd (main lookup args w)))) = length (writes (trace w)) + 1
         \<and> (\<exists>r. trace (snd (main lookup args w)) = trace w @ [Isfile (args ! 1), Write r]
                \<or> trace (snd (main lookup args w))
                    = trace w @ [Isfile (args ! 1), Lookup (args ! 1) (args ! 2), Write r])"
proof (cases rule: main_cases [of args lookup w])
  case no_arg1
  with assms show ?thesis by simp
next
  case single_file
  then show ?thesis by simp
next
  case single_file_refused
  with assms show ?thesis by simp
next
  case no_arg2
  with assms show ?thesis by simp
next
  case (raised e)
  with assms show ?thesis by simp
next
  case (found r)
  then show ?thesis by simp
next
  case (found_refused r)
  with assms show ?thesis by simp
qed

theorem successful_run_writes_once_witness:
  "fst (main example_lookup [''prog'', ''my_package'', ''robot.launch''] example_world) = Inr ()
   \<and> files (snd (main example_lookup [''prog'', ''my_package'', ''robot.launch''] example_world))
       = example_files
   \<and> length (writes (trace (snd
        (main example_lookup [''prog'', ''my_package'', ''robot.launch''] example_world)))) = 1"
proof -
  let ?args = "[''prog'', ''my_package'', ''robot.launch'']"
  have f: "files example_world (?args ! 1) \<noteq> Some Regular"
    by (simp add: example_world_def example_files_def latin1_file_def)
  have h: "fst (main example_lookup ?args example_world) = Inr ()"
    using main_pkg_file [OF _ f, of example_lookup] example_encodable(2)
    by (simp add: example_lookup_def)
  show ?thesis
    using h successful_run_writes_once [OF h] by (simp add: example_world_def)
qed

text \<open>
  C9. On every run the lookup is entered at most once; and whenever \<open>args[1]\<close> names an
  existing regular file the run ends without entering it at all: normally when
  standard output can encode \<open>args[1]\<close>, with \<open>print\<close>'s \<open>UnicodeEncodeError\<close>
  when it cannot.
\<close>

theorem lookup_entered_at_most_once:
  "(\<exists>cs. lookups (trace (snd (main lookup args w))) = lookups (trace w) @ cs
          \<and> length cs \<le> 1)
   \<and> (1 < length args \<and> files w (args ! 1) = Some Regular \<longrightarrow>
        fst (main lookup args w)
          = (if encodable w (args ! 1) then Inr () else Inl UnicodeEncodeError)
        \<and> lookups (trace (snd (main lookup args w))) = lookups (trace w))"
proof (cases rule: main_cases [of args lookup w])
  case no_arg1
  then show ?thesis by simp
next
  case single_file
  then show ?thesis by simp
next
  case single_file_refused
  then show ?thesis by simp
next
  case no_arg2
  then show ?thesis by simp
next
  case (raised e)
  then show ?thesis by simp
next
  case (found r)
  then show ?thesis by simp
next
  case (found_refused r)
  then show ?thesis by simp
qed

theorem lookup_entered_at_most_once_witness:
  "1 < length [''prog'', ''/tmp/existing_file.txt'', ''robot.launch'']
   \<and> files example_world ([''prog'', ''/tmp/existing_file.txt'', ''robot.launch''] ! 1)
       = Some Regular
   \<and> fst (main example_lookup [''prog'', ''/tmp/existing_file.txt'', ''robot.launch'']
        example_world) = Inr ()
   \<and> lookups (trace (snd (main example_lookup
        [''prog'', ''/tmp/existing_file.txt'', ''robot.launch''] example_world))) = []"
proof -
  let ?args = "[''prog'', ''/tmp/existing_file.txt'', ''robot.launch'']"
  have h1: "1 < length ?args"
    by simp
  have h2: "files example_world (?args ! 1) = Some Regular"
    by (simp add: example_world_def example_files_def latin1_file_def)
  have h3: "encodable example_world (?args ! 1)"
    using example_encodable(1) by simp
  have e: "lookups (trace example_world) = []"
    by (simp add: example_world_def)
  show ?thesis
    using h1 h2 h3 e lookup_entered_at_most_once [of example_lookup ?args example_world]
    by simp
qed

subsection \<open>What a run depends on\<close>

text \<open>
  Two runs, of any two argument lists, filesystems and lookup functions, on the same
  output stream, end the same way and do the same things as soon as they agree on what
  \<open>main\<close> reads: \<open>args[1]\<close>, the answer of the file test for it, and in package mode
  \<open>args[2]\<close> and the lookup's result for that pair.
\<close>

lemma main_determined:
  assumes a1: "agree_at args args' 1"
    and tr: "trace w = trace w'"
    and enc: "stdout_accepts w = stdout_accepts w'"
    and chk: "1 < length args \<Longrightarrow>
                (files w (args ! 1) = Some Regular) = (files w' (args ! 1) = Some Regular)"
    and a2: "1 < length args \<Longrightarrow> files w (args ! 1) \<noteq> Some Regular \<Longrightarrow> agree_at args args' 2"
    and lk: "2 < length args \<Longrightarrow> files w (args ! 1) \<noteq> Some Regular \<Longrightarrow>
               lookup (args ! 1) (args ! 2) = lookup' (args ! 1) (args ! 2)"
  shows "fst (main lookup args w) = fst (main lookup' args' w')
         \<and> trace (snd (main lookup args w)) = trace (snd (main lookup' args' w'))"
proof -
  have en: "encodable w' s = encodable w s" for s
    using enc by (simp add: encodable_def)
  show ?thesis
  proof (cases rule: main_cases [of args lookup w])
    case no_arg1
    with a1 have "length args' \<le> 1"
      by (simp add: agree_at_def split: if_splits)
    then have "main lookup' args' w' = (Inl IndexError, w')"
      by (rule main_no_arg1)
    with no_arg1 tr show ?thesis by simp
  next
    case single_file
    with a1 have l: "1 < length args'" and e: "args' ! 1 = args ! 1"
      by (simp_all add: agree_at_def)
    from single_file chk e have f: "files w' (args' ! 1) = Some Regular"
      by simp
    from single_file(3) e have "encodable w' (args' ! 1)"
      by (simp add: en)
    with main_single_file [OF l f, of lookup']
    have "main lookup' args' w' =
            (Inr (), w'\<lparr>trace := trace w' @ [Isfile (args' ! 1), Write (args' ! 1)]\<rparr>)"
      by simp
    with single_file(4) tr e show ?thesis
      by simp
  next
    case single_file_refused
    with a1 have l: "1 < length args'" and e: "args' ! 1 = args ! 1"
      by (simp_all add: agree_at_def)
    from single_file_refused chk e have f: "files w' (args' ! 1) = Some Regular"
      by simp
    from single_file_refused(3) e have "\<not> encodable w' (args' ! 1)"
      by (simp add: en)
    with main_single_file [OF l f, of lookup']
    have "main lookup' args' w' =
            (Inl UnicodeEncodeError, w'\<lparr>trace := trace w' @ [Isfile (args' ! 1)]\<rparr>)"
      by simp
    with single_file_refused(4) tr e show ?thesis
      by simp
  next
    case no_arg2
    with a1 a2 have l: "length args' = 2" and e: "args' ! 1 = args ! 1"
      by (auto simp: agree_at_def split: if_splits)
    from no_arg2 chk e have "files w' (args' ! 1) \<noteq> Some Regular"
      by simp
    from main_pkg_no_arg2 [OF l this, of lookup'] no_arg2 tr e show ?thesis
      by simp
  next
    case (raised x)
    with a1 a2 have l: "2 < length args'" and e: "args' ! 1 = args ! 1" "args' ! 2 = args ! 2"
      by (auto simp: agree_at_def split: if_splits)
    from raised chk e have f: "files w' (args' ! 1) \<noteq> Some Regular"
      by simp
    from raised lk e have "lookup' (args' ! 1) (args' ! 2) = Inl x"
      by simp
    with main_pkg_file [OF l f, of lookup']
    have "main lookup' args' w' =
            (Inl x, w'\<lparr>trace := trace w' @ [Isfile (args' ! 1), Lookup (args' ! 1) (args' ! 2)]\<rparr>)"
      by simp
    with raised(4) tr e show ?thesis
      by simp
  next
    case (found r)
    with a1 a2 have l: "2 < length args'" and e: "args' ! 1 = args ! 1" "args' ! 2 = args ! 2"
      by (auto simp: agree_at_def split: if_splits)
    from found chk e have f: "files w' (args' ! 1) \<noteq> Some Regular"
      by simp
    from found lk e have "lookup' (args' ! 1) (args' ! 2) = Inr r"
      by simp
    moreover from found(4) have "encodable w' r"
      by (simp add: en)
    ultimately have "main lookup' args' w' =
            (Inr (), w'\<lparr>trace := trace w' @
               [Isfile (args' ! 1), Lookup (args' ! 1) (args' ! 2), Write r]\<rparr>)"
      using main_pkg_file [OF l f, of lookup'] by simp
    with found(5) tr e show ?thesis
      by simp
  next
    case (found_refused r)
    with a1 a2 have l: "2 < length args'" and e: "args' ! 1 = args ! 1" "args' ! 2 = args ! 2"
      by (auto simp: agree_at_def split: if_splits)
    from found_refused chk e have f: "files w' (args' ! 1) \<noteq> Some Regular"
      by simp
    from found_refused lk e have "lookup' (args' ! 1) (args' ! 2) = Inr r"
      by simp
    moreover from found_refused(4) have "\<not> encodable w' r"
      by (simp add: en)
    ultimately have "main lookup' args' w' =
            (Inl UnicodeEncodeError, w'\<lparr>trace := trace w' @
               [Isfile (args' ! 1), Lookup (args' ! 1) (args' ! 2)]\<rparr>)"
      using main_pkg_file [OF l f, of lookup'] by simp
    with found_refused(5) tr e show ?thesis
      by simp
  qed
qed

lemma main_eqI:
  assumes "fst (main lookup args w) = fst (main lookup' args' w)"
    and "trace (snd (main lookup args w)) = trace (snd (main lookup' args' w))"
  shows "main lookup args w = main lookup' args' w"
proof -
  have "files (snd (main lookup args w)) = files (snd (main lookup' args' w))"
    and "stdout_accepts (snd (main lookup args w))
           = stdout_accepts (snd (main lookup' args' w))"
    by simp_all
  with assms(2) have "snd (main lookup args w) = snd (main lookup' args' w)"
    by simp
  with assms(1) show ?thesis
    by (simp add: prod_eq_iff)
qed

text \<open>
  C7. (1) Two runs in the same world with the same lookup, on argument lists that agree
  at indices 1 and 2, are the same run: \<open>args[0]\<close> and everything past index 2 have no
  influence. (2) In single-file mode agreement at index 1 is enough, whatever \<open>args[2]\<close>
  and whatever the lookup function: neither is consulted. (3) In general the outcome
  and the effects are the same for two runs on the same output stream that agree on
  \<open>args[1]\<close>, on the answer of the file test for it, and in package mode on \<open>args[2]\<close>
  and on the lookup's result for \<open>(args[1], args[2])\<close>; the rest of the filesystem
  and of the lookup function does not matter.
\<close>

theorem output_depends_only_on_consumed_inputs:
  "(agree_at args args' 1 \<and> agree_at args args' 2 \<longrightarrow>
      main lookup args w = main lookup args' w)
   \<and> (agree_at args args' 1 \<and> 1 < length args \<and> files w (args ! 1) = Some Regular \<longrightarrow>
        main lookup args w = main lookup' args' w)
   \<and> (agree_at args args' 1 \<and> trace w = trace w'
        \<and> stdout_accepts w = stdout_accepts w'
        \<and> (1 < length args \<longrightarrow>
              (files w (args ! 1) = Some Regular) = (files w' (args ! 1) = Some Regular))
        \<and> (1 < length args \<and> files w (args ! 1) \<noteq> Some Regular \<longrightarrow> agree_at args args' 2)
        \<and> (2 < length args \<and> files w (args ! 1) \<noteq> Some Regular \<longrightarrow>
              lookup (args ! 1) (args ! 2) = lookup' (args ! 1) (args ! 2))
      \<longrightarrow> fst (main lookup args w) = fst (main lookup' args' w')
          \<and> trace (snd (main lookup args w)) = trace (snd (main lookup' args' w')))"
proof (intro conjI impI)
  assume h: "agree_at args args' 1 \<and> agree_at args args' 2"
  have "fst (main lookup args w) = fst (main lookup args' w)
        \<and> trace (snd (main lookup args w)) = trace (snd (main lookup args' w))"
  proof (rule main_determined)
    show "agree_at args args' 1" and "agree_at args args' 2"
      using h by simp_all
  qed simp_all
  then show "main lookup args w = main lookup args' w"
    by (blast intro: main_eqI)
next
  assume h: "agree_at args args' 1 \<and> 1 < length args \<and> files w (args ! 1) = Some Regular"
  have "fst (main lookup args w) = fst (main lookup' args' w)
        \<and> trace (snd (main lookup args w)) = trace (snd (main lookup' args' w))"
  proof (rule main_determined)
    show "agree_at args args' 1"
      using h by simp
    show "agree_at args args' 2" if "files w (args ! 1) \<noteq> Some Regular"
      using h that by simp
    show "lookup (args ! 1) (args ! 2) = lookup' (args ! 1) (args ! 2)"
      if "files w (args ! 1) \<noteq> Some Regular"
      using h that by simp
  qed simp_all
  then show "main lookup args w = main lookup' args' w"
    by (blast intro: main_eqI)
next
  assume h: "agree_at args args' 1 \<and> trace w = trace w'
        \<and> stdout_accepts w = stdout_accepts w'
        \<and> (1 < length args \<longrightarrow>
              (files w (args ! 1) = Some Regular) = (files w' (args ! 1) = Some Regular))
        \<and> (1 < length args \<and> files w (args ! 1) \<noteq> Some Regular \<longrightarrow> agree_at args args' 2)
        \<and> (2 < length args \<and> files w (args ! 1) \<noteq> Some Regular \<longrightarrow>
              lookup (args ! 1) (args ! 2) = lookup' (args ! 1) (args ! 2))"
  have r: "fst (main lookup args w) = fst (main lookup' args' w')
           \<and> trace (snd (main lookup args w)) = trace (snd (main lookup' args' w'))"
  proof (rule main_determined)
    show "agree_at args args' 1" and "trace w = trace w'"
      and "stdout_accepts w = stdout_accepts w'"
      using h by blast+
    show "(files w (args ! 1) = Some Regular) = (files w' (args ! 1) = Some Regular)"
      if "1 < length args"
      using h that by blast
    show "agree_at args args' 2" if "1 < length args" and "files w (args ! 1) \<noteq> Some Regular"
      using h that by blast
    show "lookup (args ! 1) (args ! 2) = lookup' (args ! 1) (args ! 2)"
      if "2 < length args" and "files w (args ! 1) \<noteq> Some Regular"
      using h that by blast
  qed
  from r show "fst (main lookup args w) = fst (main lookup' args' w')" ..
  from r show "trace (snd (main lookup args w)) = trace (snd (main lookup' args' w'))" ..
qed

theorem output_depends_only_on_consumed_inputs_witness:
  "agree_at [''prog'', ''my_package'', ''robot.launch'']
            [''/usr/bin/resolver'', ''my_package'', ''robot.launch'', ''extra''] 1
   \<and> agree_at [''prog'', ''my_package'', ''robot.launch'']
              [''/usr/bin/resolver'', ''my_package'', ''robot.launch'', ''extra''] 2
   \<and> main example_lookup [''prog'', ''my_package'', ''robot.launch''] example_world
       = main example_lookup
           [''/usr/bin/resolver'', ''my_package'', ''robot.launch'', ''extra''] example_world
   \<and> agree_at [''prog'', ''/tmp/existing_file.txt'']
              [''prog'', ''/tmp/existing_file.txt'', ''robot.launch''] 1
   \<and> files example_world ([''prog'', ''/tmp/existing_file.txt''] ! 1) = Some Regular
   \<and> main example_lookup [''prog'', ''/tmp/existing_file.txt''] example_world
       = main share_lookup
           [''prog'', ''/tmp/existing_file.txt'', ''robot.launch''] example_world"
proof -
  let ?pkg = "[''prog'', ''my_package'', ''robot.launch'']"
  let ?pkg' = "[''/usr/bin/resolver'', ''my_package'', ''robot.launch'', ''extra'']"
  let ?one = "[''prog'', ''/tmp/existing_file.txt'']"
  let ?one' = "[''prog'', ''/tmp/existing_file.txt'', ''robot.launch'']"
  have a1: "agree_at ?pkg ?pkg' 1" and a2: "agree_at ?pkg ?pkg' 2" and b1: "agree_at ?one ?one' 1"
    by (simp_all add: agree_at_def)
  have b2: "1 < length ?one"
    by simp
  have b3: "files example_world (?one ! 1) = Some Regular"
    by (simp add: example_world_def example_files_def latin1_file_def)
  have c1: "main example_lookup ?pkg example_world = main example_lookup ?pkg' example_world"
    using a1 a2
      output_depends_only_on_consumed_inputs [where args = ?pkg and args' = ?pkg'
        and lookup = example_lookup and lookup' = example_lookup
        and w = example_world and w' = example_world]
    by blast
  have c2: "main example_lookup ?one example_world = main share_lookup ?one' example_world"
    using b1 b2 b3
      output_depends_only_on_consumed_inputs [where args = ?one and args' = ?one'
        and lookup = example_lookup and lookup' = share_lookup
        and w = example_world and w' = example_world]
    by blast
  show ?thesis
    using a1 a2 b1 b3 c1 c2 by blast
qed

end
